theory Spec2Isabelle
  imports Main
begin

section \<open>Unit compatibility of meters and groups (determineCompatibleUnits.ts)\<close>

text \<open>
  The file \<^verbatim>\<open>src/client/app/utils/determineCompatibleUnits.ts\<close> holds two successive
  revisions of the same module (lines 1-293 and lines 294-653). Functions whose two texts
  agree are embedded once; the functions that the two revisions are compared on, or that
  differ, are embedded twice, the earlier one with the suffix \<open>_rev1\<close>.
\<close>

subsection \<open>JavaScript sets\<close>

text \<open>
  A JavaScript \<^verbatim>\<open>Set<number>\<close> iterates in insertion order and holds no element twice:
  it is a list without duplicates. \<open>Set_add\<close> is \<^verbatim>\<open>s.add(x)\<close>, \<open>new_Set\<close> is
  \<^verbatim>\<open>new Set(array)\<close>, \<open>Set_has\<close> is \<^verbatim>\<open>s.has(x)\<close>, the size of a set is the length of
  the list and \<^verbatim>\<open>Array.from(s)\<close> is the list itself.
\<close>

definition Set_add :: "'a list \<Rightarrow> 'a \<Rightarrow> 'a list" where
  "Set_add s x = (if x \<in> set s then s else s @ [x])"

definition new_Set :: "'a list \<Rightarrow> 'a list" where
  "new_Set xs = foldl Set_add [] xs"

definition Set_has :: "'a list \<Rightarrow> 'a \<Rightarrow> bool" where
  "Set_has s x = (x \<in> set s)"

subsection \<open>Redux state\<close>

text \<open>
  Modelled from the spec: the declarations of \<^verbatim>\<open>UnitType\<close>, \<^verbatim>\<open>UnitData\<close>, \<^verbatim>\<open>MeterData\<close>,
  \<^verbatim>\<open>GroupDefinition\<close>, \<^verbatim>\<open>DataType\<close>, \<^verbatim>\<open>SelectOption\<close> and \<^verbatim>\<open>State\<close> (imported from
  \<^verbatim>\<open>../types\<close>) and the class \<^verbatim>\<open>ConversionArray\<close> are not among the sources. The records
  below hold the fields the code reads. A unit has an identity, an index and a type tag
  that tells source (meter) units from all other kinds; a meter has an identity and an
  assigned unit id; a group has an identity, its deep meter ids and a default graphic unit.
  Ids and indices are JavaScript numbers holding integers.
\<close>

datatype UnitType = unit | meter | suffix

record UnitData =
  unit_id :: int
  unitIndex :: int
  typeOfUnit :: UnitType

record MeterData =
  meter_id :: int
  meter_identifier :: string
  unitId :: int

record GroupDefinition =
  group_id :: int
  group_name :: string
  deepMeters :: "int list"
  defaultGraphicUnit :: int

datatype DataType = Meter | Group

text \<open>
  \<^verbatim>\<open>option.style\<close> is a \<^verbatim>\<open>React.CSSProperties\<close> object: a list of property and value.
  The earlier revision builds options without the field (\<open>None\<close>).
\<close>

record SelectOption =
  label :: string
  option_value :: int
  isDisabled :: bool
  style :: "(string \<times> string) list option"

text \<open>
  The store's state, with the static members of \<^verbatim>\<open>ConversionArray\<close> beside it:
  \<^verbatim>\<open>state.units.units\<close> in the order \<^verbatim>\<open>_.find\<close> visits it, the objects
  \<^verbatim>\<open>state.meters.byMeterID\<close> and \<^verbatim>\<open>state.groups.byGroupID\<close> as association lists in the
  order of \<^verbatim>\<open>Object.values\<close> (an object has no key twice), \<^verbatim>\<open>ConversionArray.pik\<close> and
  the value of \<^verbatim>\<open>ConversionArray.pikAvailable()\<close>.
\<close>

record State =
  units :: "UnitData list"
  byMeterID :: "(int \<times> MeterData) list"
  byGroupID :: "(int \<times> GroupDefinition) list"
  pik :: "bool list list"
  pikAvailable :: bool

subsection \<open>Errors\<close>

text \<open>
  The module declares no error of its own and has no \<^verbatim>\<open>throw\<close> and no \<^verbatim>\<open>try\<close>. Its only
  failure is the \<^verbatim>\<open>TypeError\<close> that the runtime raises when a property of \<^verbatim>\<open>undefined\<close>
  is read: \<^verbatim>\<open>unit.unitIndex\<close> and \<^verbatim>\<open>unit.id\<close> after a \<^verbatim>\<open>_.find\<close> that found no unit,
  \<^verbatim>\<open>meter.unitId\<close> of a missing meter, \<^verbatim>\<open>group.deepMeters\<close> and
  \<^verbatim>\<open>group.defaultGraphicUnit\<close> of a missing group, \<^verbatim>\<open>pik[0].length\<close> and \<^verbatim>\<open>pik[row][k]\<close>
  of a missing row. It is the same error in every place, and it leaves every caller.
\<close>

datatype error = TypeError

subsection \<open>Set intersection (lines 21-23 and 314-316)\<close>

definition setIntersect_rev1 :: "int list \<Rightarrow> int list \<Rightarrow> int list" where
  "setIntersect_rev1 setA setB = new_Set (filter (\<lambda>i. Set_has setB i) setA)"

definition setIntersect :: "int list \<Rightarrow> int list \<Rightarrow> int list" where
  "setIntersect setA setB = new_Set (filter (\<lambda>i. Set_has setB i) setA)"

subsection \<open>Index lookups (lines 96-131)\<close>

definition pRowFromUnit :: "State \<Rightarrow> int \<Rightarrow> error + int" where
  "pRowFromUnit st uid =
     (case find (\<lambda>o'. unit_id o' = uid \<and> typeOfUnit o' = meter) (units st) of
        None \<Rightarrow> Inl TypeError
      | Some u \<Rightarrow> Inr (unitIndex u))"

definition unitFromPRow :: "State \<Rightarrow> int \<Rightarrow> error + int" where
  "unitFromPRow st row =
     (case find (\<lambda>o'. unitIndex o' = row \<and> typeOfUnit o' = meter) (units st) of
        None \<Rightarrow> Inl TypeError
      | Some u \<Rightarrow> Inr (unit_id u))"

definition unitFromPColumn :: "State \<Rightarrow> int \<Rightarrow> error + int" where
  "unitFromPColumn st column =
     (case find (\<lambda>o'. unitIndex o' = column \<and> typeOfUnit o' \<noteq> meter) (units st) of
        None \<Rightarrow> Inl TypeError
      | Some u \<Rightarrow> Inr (unit_id u))"

subsection \<open>Units compatible with one unit (lines 67-89)\<close>

text \<open>
  \<^verbatim>\<open>pik[row][k]\<close>: a row outside the array is \<^verbatim>\<open>undefined\<close> and indexing it throws; a
  column outside the row reads \<^verbatim>\<open>undefined\<close>, which the \<^verbatim>\<open>if\<close> takes as false.
\<close>

definition pikEntry :: "bool list list \<Rightarrow> int \<Rightarrow> nat \<Rightarrow> error + bool" where
  "pikEntry p row k =
     (if 0 \<le> row \<and> nat row < length p
      then Inr (k < length (p ! nat row) \<and> p ! nat row ! k)
      else Inl TypeError)"

text \<open>The \<^verbatim>\<open>for\<close> loop over the columns \<open>ks\<close> still to visit, with \<open>unitSet\<close> so far.\<close>

fun columnsLoop :: "State \<Rightarrow> int \<Rightarrow> nat list \<Rightarrow> int list \<Rightarrow> error + int list" where
  "columnsLoop st row [] unitSet = Inr unitSet"
| "columnsLoop st row (k # ks) unitSet =
     (case pikEntry (pik st) row k of
        Inl e \<Rightarrow> Inl e
      | Inr b \<Rightarrow>
          if b then
            (case unitFromPColumn st (int k) of
               Inl e \<Rightarrow> Inl e
             | Inr u \<Rightarrow> columnsLoop st row ks (Set_add unitSet u))
          else columnsLoop st row ks unitSet)"

definition unitsCompatibleWithUnit :: "State \<Rightarrow> int \<Rightarrow> error + int list" where
  "unitsCompatibleWithUnit st uid =
     (if uid \<noteq> -99 \<and> pikAvailable st then
        (case pRowFromUnit st uid of
           Inl e \<Rightarrow> Inl e
         | Inr row \<Rightarrow>
             (case pik st of
                [] \<Rightarrow> Inl TypeError
              | row0 # _ \<Rightarrow> columnsLoop st row [0..<length row0] []))
      else Inr [])"

subsection \<open>Units compatible with a set of meters (lines 30-60)\<close>

text \<open>The first half of the \<^verbatim>\<open>forEach\<close> body: \<open>meterUnits\<close> of one meter id.\<close>

definition meterUnits :: "State \<Rightarrow> int \<Rightarrow> error + int list" where
  "meterUnits st meterId =
     (case map_of (byMeterID st) meterId of
        None \<Rightarrow> Inl TypeError
      | Some m \<Rightarrow>
          if unitId m \<noteq> -99 then unitsCompatibleWithUnit st (unitId m) else Inr [])"

fun metersLoop :: "State \<Rightarrow> int list \<Rightarrow> bool \<Rightarrow> int list \<Rightarrow> error + int list" where
  "metersLoop st [] first compatibleUnits = Inr compatibleUnits"
| "metersLoop st (meterId # rest) first compatibleUnits =
     (case meterUnits st meterId of
        Inl e \<Rightarrow> Inl e
      | Inr mu \<Rightarrow>
          if first then metersLoop st rest False mu
          else metersLoop st rest False (setIntersect compatibleUnits mu))"

definition unitsCompatibleWithMeters :: "State \<Rightarrow> int list \<Rightarrow> error + int list" where
  "unitsCompatibleWithMeters st meters = metersLoop st meters True []"

subsection \<open>Deep meters of a group (lines 138-145)\<close>

definition metersInGroup :: "State \<Rightarrow> int \<Rightarrow> error + int list" where
  "metersInGroup st groupId =
     (case map_of (byGroupID st) groupId of
        None \<Rightarrow> Inl TypeError
      | Some g \<Rightarrow> Inr (new_Set (deepMeters g)))"

subsection \<open>The change classifier (lines 227-290 and 574-636)\<close>

datatype GroupCase = NoChange | LostCompatibleUnits | LostDefaultGraphicUnit | NoCompatibleUnits

definition groupCase_rev1 :: "int list \<Rightarrow> int list \<Rightarrow> int \<Rightarrow> GroupCase" where
  "groupCase_rev1 currentUnits newUnits dgu =
     (let intersection = setIntersect_rev1 currentUnits newUnits;
          lostUnits = new_Set (filter (\<lambda>x. \<not> Set_has intersection x) currentUnits)
      in if length lostUnits = 0 then NoChange
         else if length lostUnits = length currentUnits then NoCompatibleUnits
         else if dgu \<noteq> -99 \<and> Set_has lostUnits dgu then LostDefaultGraphicUnit
         else LostCompatibleUnits)"

definition groupCase :: "int list \<Rightarrow> int list \<Rightarrow> int \<Rightarrow> GroupCase" where
  "groupCase currentUnits newUnits dgu =
     (let intersection = setIntersect currentUnits newUnits;
          lostUnits = new_Set (filter (\<lambda>x. \<not> Set_has intersection x) currentUnits)
      in if length lostUnits = 0 then NoChange
         else if length lostUnits = length currentUnits then NoCompatibleUnits
         else if dgu \<noteq> -99 \<and> Set_has lostUnits dgu then LostDefaultGraphicUnit
         else LostCompatibleUnits)"

definition getCompatibleUnits :: "State \<Rightarrow> int \<Rightarrow> DataType \<Rightarrow> error + int list" where
  "getCompatibleUnits st i ty =
     (if ty = Meter then
        (case map_of (byMeterID st) i of
           None \<Rightarrow> Inl TypeError
         | Some m \<Rightarrow> unitsCompatibleWithUnit st (unitId m))
      else
        (case metersInGroup st i of
           Inl e \<Rightarrow> Inl e
         | Inr ms \<Rightarrow> unitsCompatibleWithMeters st ms))"

definition getCompatibilityChangeCase_rev1 ::
  "State \<Rightarrow> int list \<Rightarrow> int \<Rightarrow> DataType \<Rightarrow> int \<Rightarrow> error + GroupCase" where
  "getCompatibilityChangeCase_rev1 st otherUnits i ty dgu =
     (case getCompatibleUnits st i ty of
        Inl e \<Rightarrow> Inl e
      | Inr newUnits \<Rightarrow> Inr (groupCase_rev1 otherUnits newUnits dgu))"

definition getCompatibilityChangeCase ::
  "State \<Rightarrow> int list \<Rightarrow> int \<Rightarrow> DataType \<Rightarrow> int \<Rightarrow> error + GroupCase" where
  "getCompatibilityChangeCase st otherUnits i ty dgu =
     (case getCompatibleUnits st i ty of
        Inl e \<Rightarrow> Inl e
      | Inr newUnits \<Rightarrow> Inr (groupCase otherUnits newUnits dgu))"

subsection \<open>Menu options (lines 151-218, 444-512 and 638-653)\<close>

definition getMenuOptionFont :: "GroupCase \<Rightarrow> (string \<times> string) list" where
  "getMenuOptionFont compatibilityChangeCase =
     (case compatibilityChangeCase of
        NoChange \<Rightarrow> [(''color'', ''black'')]
      | LostCompatibleUnits \<Rightarrow> [(''color'', ''yellow'')]
      | LostDefaultGraphicUnit \<Rightarrow> [(''color'', ''red'')]
      | NoCompatibleUnits \<Rightarrow> [])"

text \<open>
  The \<^verbatim>\<open>forEach\<close> of each menu function, over the candidates still to visit, with the
  \<open>options\<close> pushed so far. An exception in the body ends the loop and the function.
\<close>

fun meterOptionsLoop_rev1 ::
  "State \<Rightarrow> int list \<Rightarrow> int \<Rightarrow> MeterData list \<Rightarrow> SelectOption list \<Rightarrow> error + SelectOption list"
where
  "meterOptionsLoop_rev1 st currentUnits dgu [] options = Inr options"
| "meterOptionsLoop_rev1 st currentUnits dgu (m # ms) options =
     (let opt = \<lparr>label = meter_identifier m, option_value = meter_id m,
                  isDisabled = False, style = None\<rparr>
      in case getCompatibilityChangeCase_rev1 st currentUnits (meter_id m) Meter dgu of
           Inl e \<Rightarrow> Inl e
         | Inr cc \<Rightarrow>
             meterOptionsLoop_rev1 st currentUnits dgu ms
               (options @ [if cc = NoCompatibleUnits then opt\<lparr>isDisabled := True\<rparr> else opt]))"

fun groupOptionsLoop_rev1 ::
  "State \<Rightarrow> int list \<Rightarrow> int \<Rightarrow> GroupDefinition list \<Rightarrow> SelectOption list \<Rightarrow> error + SelectOption list"
where
  "groupOptionsLoop_rev1 st currentUnits dgu [] options = Inr options"
| "groupOptionsLoop_rev1 st currentUnits dgu (g # gs) options =
     (let opt = \<lparr>label = group_name g, option_value = group_id g,
                  isDisabled = False, style = None\<rparr>
      in case getCompatibilityChangeCase_rev1 st currentUnits (group_id g) Meter dgu of
           Inl e \<Rightarrow> Inl e
         | Inr cc \<Rightarrow>
             groupOptionsLoop_rev1 st currentUnits dgu gs
               (options @ [if cc = NoCompatibleUnits then opt\<lparr>isDisabled := True\<rparr> else opt]))"

fun meterOptionsLoop ::
  "State \<Rightarrow> int list \<Rightarrow> int \<Rightarrow> MeterData list \<Rightarrow> SelectOption list \<Rightarrow> error + SelectOption list"
where
  "meterOptionsLoop st currentUnits dgu [] options = Inr options"
| "meterOptionsLoop st currentUnits dgu (m # ms) options =
     (let opt = \<lparr>label = meter_identifier m, option_value = meter_id m,
                  isDisabled = False, style = Some []\<rparr>
      in case getCompatibilityChangeCase st currentUnits (meter_id m) Meter dgu of
           Inl e \<Rightarrow> Inl e
         | Inr cc \<Rightarrow>
             meterOptionsLoop st currentUnits dgu ms
               (options @ [if cc = NoCompatibleUnits then opt\<lparr>isDisabled := True\<rparr>
                           else opt\<lparr>style := Some (getMenuOptionFont cc)\<rparr>]))"

fun groupOptionsLoop ::
  "State \<Rightarrow> int list \<Rightarrow> int \<Rightarrow> GroupDefinition list \<Rightarrow> SelectOption list \<Rightarrow> error + SelectOption list"
where
  "groupOptionsLoop st currentUnits dgu [] options = Inr options"
| "groupOptionsLoop st currentUnits dgu (g # gs) options =
     (let opt = \<lparr>label = group_name g, option_value = group_id g,
                  isDisabled = False, style = Some []\<rparr>
      in case getCompatibilityChangeCase st currentUnits (group_id g) Group dgu of
           Inl e \<Rightarrow> Inl e
         | Inr cc \<Rightarrow>
             groupOptionsLoop st currentUnits dgu gs
               (options @ [if cc = NoCompatibleUnits then opt\<lparr>isDisabled := True\<rparr>
                           else opt\<lparr>style := Some (getMenuOptionFont cc)\<rparr>]))"

text \<open>
  The head of every menu function: the group's compatible units, then its default
  graphic unit, then the loop \<open>body\<close> over the candidates.
\<close>

definition getMeterMenuOptionsForGroup_rev1 :: "State \<Rightarrow> int \<Rightarrow> error + SelectOption list" where
  "getMeterMenuOptionsForGroup_rev1 st gid =
     (case metersInGroup st gid of
        Inl e \<Rightarrow> Inl e
      | Inr ms \<Rightarrow>
          (case unitsCompatibleWithMeters st ms of
             Inl e \<Rightarrow> Inl e
           | Inr currentUnits \<Rightarrow>
               (case map_of (byGroupID st) gid of
                  None \<Rightarrow> Inl TypeError
                | Some g \<Rightarrow>
                    meterOptionsLoop_rev1 st currentUnits (defaultGraphicUnit g)
                      (map snd (byMeterID st)) [])))"

definition getGroupMenuOptionsForGroup_rev1 :: "State \<Rightarrow> int \<Rightarrow> error + SelectOption list" where
  "getGroupMenuOptionsForGroup_rev1 st gid =
     (case metersInGroup st gid of
        Inl e \<Rightarrow> Inl e
      | Inr ms \<Rightarrow>
          (case unitsCompatibleWithMeters st ms of
             Inl e \<Rightarrow> Inl e
           | Inr currentUnits \<Rightarrow>
               (case map_of (byGroupID st) gid of
                  None \<Rightarrow> Inl TypeError
                | Some g \<Rightarrow>
                    groupOptionsLoop_rev1 st currentUnits (defaultGraphicUnit g)
                      (map snd (byGroupID st)) [])))"

definition getMeterMenuOptionsForGroup :: "State \<Rightarrow> int \<Rightarrow> error + SelectOption list" where
  "getMeterMenuOptionsForGroup st gid =
     (case metersInGroup st gid of
        Inl e \<Rightarrow> Inl e
      | Inr ms \<Rightarrow>
          (case unitsCompatibleWithMeters st ms of
             Inl e \<Rightarrow> Inl e
           | Inr currentUnits \<Rightarrow>
               (case map_of (byGroupID st) gid of
                  None \<Rightarrow> Inl TypeError
                | Some g \<Rightarrow>
                    meterOptionsLoop st currentUnits (defaultGraphicUnit g)
                      (map snd (byMeterID st)) [])))"

definition getGroupMenuOptionsForGroup :: "State \<Rightarrow> int \<Rightarrow> error + SelectOption list" where
  "getGroupMenuOptionsForGroup st gid =
     (case metersInGroup st gid of
        Inl e \<Rightarrow> Inl e
      | Inr ms \<Rightarrow>
          (case unitsCompatibleWithMeters st ms of
             Inl e \<Rightarrow> Inl e
           | Inr currentUnits \<Rightarrow>
               (case map_of (byGroupID st) gid of
                  None \<Rightarrow> Inl TypeError
                | Some g \<Rightarrow>
                    groupOptionsLoop st currentUnits (defaultGraphicUnit g)
                      (map snd (byGroupID st)) [])))"

subsection \<open>A small state to evaluate the functions on\<close>

text \<open>
  Three meter units (rows 0 to 2 of \<open>pik\<close>) and three other units (columns 0 to 2):
  unit 100 converts to unit 5, unit 101 to units 6 and 7, unit 102 to unit 7. Meters 1, 2
  and 4 have the units 100, 101 and 102, meter 3 has no unit. Group 1 holds meter 2,
  group 2 holds meters 1 and 2, group 3 holds meters 2 and 4.
\<close>

definition demo_units :: "UnitData list" where
  "demo_units =
     [\<lparr>unit_id = 100, unitIndex = 0, typeOfUnit = meter\<rparr>,
      \<lparr>unit_id = 101, unitIndex = 1, typeOfUnit = meter\<rparr>,
      \<lparr>unit_id = 102, unitIndex = 2, typeOfUnit = meter\<rparr>,
      \<lparr>unit_id = 5, unitIndex = 0, typeOfUnit = unit\<rparr>,
      \<lparr>unit_id = 6, unitIndex = 1, typeOfUnit = unit\<rparr>,
      \<lparr>unit_id = 7, unitIndex = 2, typeOfUnit = suffix\<rparr>]"

definition demo_meters :: "(int \<times> MeterData) list" where
  "demo_meters =
     [(1, \<lparr>meter_id = 1, meter_identifier = ''m1'', unitId = 100\<rparr>),
      (2, \<lparr>meter_id = 2, meter_identifier = ''m2'', unitId = 101\<rparr>),
      (3, \<lparr>meter_id = 3, meter_identifier = ''m3'', unitId = -99\<rparr>),
      (4, \<lparr>meter_id = 4, meter_identifier = ''m4'', unitId = 102\<rparr>)]"

definition demo_groups :: "(int \<times> GroupDefinition) list" where
  "demo_groups =
     [(1, \<lparr>group_id = 1, group_name = ''g1'', deepMeters = [2], defaultGraphicUnit = -99\<rparr>),
      (2, \<lparr>group_id = 2, group_name = ''g2'', deepMeters = [1, 2], defaultGraphicUnit = 6\<rparr>),
      (3, \<lparr>group_id = 3, group_name = ''g3'', deepMeters = [2, 4], defaultGraphicUnit = 7\<rparr>)]"

definition demo_state :: State where
  "demo_state =
     \<lparr>units = demo_units, byMeterID = demo_meters, byGroupID = demo_groups,
      pik = [[True, False, False], [False, True, True], [False, False, True]],
      pikAvailable = True\<rparr>"

text \<open>The same state with a unit catalog that lacks the unit of column 2.\<close>

definition demo_state_missing_column :: State where
  "demo_state_missing_column = demo_state\<lparr>units := butlast demo_units\<rparr>"

section \<open>Properties\<close>

subsection \<open>JavaScript sets\<close>

lemma set_foldl_Set_add: "set (foldl Set_add acc xs) = set acc \<union> set xs"
  by (induction xs arbitrary: acc) (auto simp: Set_add_def)

lemma distinct_foldl_Set_add: "distinct acc \<Longrightarrow> distinct (foldl Set_add acc xs)"
  by (induction xs arbitrary: acc) (auto simp: Set_add_def)

lemma foldl_Set_add_distinct: "distinct (acc @ xs) \<Longrightarrow> foldl Set_add acc xs = acc @ xs"
  by (induction xs arbitrary: acc) (auto simp: Set_add_def)

lemma set_new_Set: "set (new_Set xs) = set xs"
  by (simp add: new_Set_def set_foldl_Set_add)

lemma distinct_new_Set: "distinct (new_Set xs)"
  by (simp add: new_Set_def distinct_foldl_Set_add)

lemma new_Set_distinct: "distinct xs \<Longrightarrow> new_Set xs = xs"
  using foldl_Set_add_distinct [of "[]" xs] by (simp add: new_Set_def)

lemma set_setIntersect: "set (setIntersect a b) = set a \<inter> set b"
  by (auto simp: setIntersect_def set_new_Set Set_has_def)

lemma distinct_setIntersect: "distinct (setIntersect a b)"
  by (simp add: setIntersect_def distinct_new_Set)

subsection \<open>The two revisions of the classifier\<close>

lemma setIntersect_rev1_eq: "setIntersect_rev1 = setIntersect"
  by (intro ext) (simp add: setIntersect_rev1_def setIntersect_def)

lemma groupCase_rev1_eq: "groupCase_rev1 = groupCase"
  by (intro ext) (simp add: groupCase_rev1_def groupCase_def setIntersect_rev1_eq)

text \<open>
  C9: the earlier and the later definition of the classifier return the same outcome on
  all inputs, and the earlier and the later definition of set intersection return the
  same set.
\<close>

theorem revisions_agree:
  "groupCase_rev1 currentUnits newUnits dgu = groupCase currentUnits newUnits dgu \<and>
   setIntersect_rev1 setA setB = setIntersect setA setB"
  by (simp add: groupCase_rev1_def groupCase_def setIntersect_rev1_def setIntersect_def)

subsection \<open>The decision table of the classifier\<close>

lemma set_lostUnits:
  "set (new_Set (filter (\<lambda>x. \<not> Set_has (setIntersect c n) x) c)) = set c - (set c \<inter> set n)"
  by (auto simp: set_new_Set Set_has_def set_setIntersect)

lemma lostUnits_distinct:
  assumes "distinct c"
  shows "new_Set (filter (\<lambda>x. \<not> Set_has (setIntersect c n) x) c) = filter (\<lambda>x. x \<notin> set n) c"
proof -
  have "filter (\<lambda>x. \<not> Set_has (setIntersect c n) x) c = filter (\<lambda>x. x \<notin> set n) c"
    by (rule filter_cong) (auto simp: Set_has_def set_setIntersect)
  moreover have "distinct (filter (\<lambda>x. x \<notin> set n) c)"
    using assms by simp
  ultimately show ?thesis
    by (simp add: new_Set_distinct)
qed

lemma length_filter_full: "(length (filter P xs) = length xs) = (\<forall>x\<in>set xs. P x)"
proof -
  have "length (filter P xs) + length (filter (\<lambda>x. \<not> P x) xs) = length xs"
    by (rule sum_length_filter_compl)
  then have "(length (filter P xs) = length xs) = (filter (\<lambda>x. \<not> P x) xs = [])"
    by auto
  then show ?thesis
    by (simp add: filter_empty_conv)
qed

lemma groupCase_table:
  assumes "distinct c"
  shows "groupCase c n d =
     (let lost = set c - (set c \<inter> set n)
      in if lost = {} then NoChange
         else if lost = set c then NoCompatibleUnits
         else if d \<noteq> -99 \<and> d \<in> lost then LostDefaultGraphicUnit
         else LostCompatibleUnits)"
proof -
  let ?l = "new_Set (filter (\<lambda>x. \<not> Set_has (setIntersect c n) x) c)"
  have s: "set ?l = set c - (set c \<inter> set n)"
    by (rule set_lostUnits)
  have e: "(length ?l = 0) = (set c - (set c \<inter> set n) = {})"
    using s by (metis length_0_conv set_empty)
  have l: "?l = filter (\<lambda>x. x \<notin> set n) c"
    using assms by (rule lostUnits_distinct)
  have f: "(length ?l = length c) = (set c - (set c \<inter> set n) = set c)"
    unfolding l length_filter_full by auto
  have "Set_has ?l d = (d \<in> set ?l)"
    by (rule Set_has_def)
  also have "\<dots> = (d \<in> set c - (set c \<inter> set n))"
    by (simp only: s)
  finally have g: "Set_has ?l d = (d \<in> set c - (set c \<inter> set n))" .
  show ?thesis
    by (simp only: groupCase_def Let_def e f g)
qed

text \<open>
  C1: for sets \<open>currentUnits\<close> and \<open>newUnits\<close> and every default unit id, both
  definitions of \<open>groupCase\<close> return what the decision table gives for
  \<open>lost = currentUnits - (currentUnits \<inter> newUnits)\<close>, first matching row: \<open>NoChange\<close> when
  \<open>lost\<close> is empty, else \<open>NoCompatibleUnits\<close> when \<open>lost = currentUnits\<close>, else
  \<open>LostDefaultGraphicUnit\<close> when the default unit is not \<open>-99\<close> and is in \<open>lost\<close>, else
  \<open>LostCompatibleUnits\<close>; and the outcome is exactly one of the four. (\<open>distinct\<close> says
  that \<open>currentUnits\<close> is a set: a JavaScript set holds no element twice.)
\<close>

theorem groupCase_decision_table:
  assumes "distinct currentUnits"
  shows "groupCase currentUnits newUnits dgu =
           (let lost = set currentUnits - (set currentUnits \<inter> set newUnits)
            in if lost = {} then NoChange
               else if lost = set currentUnits then NoCompatibleUnits
               else if dgu \<noteq> -99 \<and> dgu \<in> lost then LostDefaultGraphicUnit
               else LostCompatibleUnits) \<and>
         groupCase_rev1 currentUnits newUnits dgu = groupCase currentUnits newUnits dgu \<and>
         (\<exists>!c. c \<in> {NoChange, LostCompatibleUnits, LostDefaultGraphicUnit, NoCompatibleUnits} \<and>
               groupCase currentUnits newUnits dgu = c)"
proof (intro conjI)
  show "groupCase currentUnits newUnits dgu =
           (let lost = set currentUnits - (set currentUnits \<inter> set newUnits)
            in if lost = {} then NoChange
               else if lost = set currentUnits then NoCompatibleUnits
               else if dgu \<noteq> -99 \<and> dgu \<in> lost then LostDefaultGraphicUnit
               else LostCompatibleUnits)"
    using assms by (rule groupCase_table)
  show "groupCase_rev1 currentUnits newUnits dgu = groupCase currentUnits newUnits dgu"
    by (simp add: groupCase_rev1_eq)
  show "\<exists>!c. c \<in> {NoChange, LostCompatibleUnits, LostDefaultGraphicUnit, NoCompatibleUnits} \<and>
             groupCase currentUnits newUnits dgu = c"
    by (cases "groupCase currentUnits newUnits dgu") auto
qed

theorem groupCase_decision_table_witness:
  "distinct [1, 2, 3 :: int] \<and> groupCase [1, 2, 3] [2, 3, 4] 1 = LostDefaultGraphicUnit"
proof -
  have d: "distinct [1, 2, 3 :: int]"
    by simp
  have "groupCase [1, 2, 3] [2, 3, 4] 1 =
          (let lost = set [1, 2, 3 :: int] - (set [1, 2, 3] \<inter> set [2, 3, 4])
           in if lost = {} then NoChange
              else if lost = set [1, 2, 3] then NoCompatibleUnits
              else if (1 :: int) \<noteq> -99 \<and> 1 \<in> lost then LostDefaultGraphicUnit
              else LostCompatibleUnits)"
    using groupCase_decision_table [OF d, of "[2, 3, 4]" 1] by (rule conjunct1)
  also have "\<dots> = LostDefaultGraphicUnit"
    by code_simp
  finally show ?thesis
    using d by simp
qed

text \<open>
  C4: for sets \<open>currentUnits\<close> and \<open>newUnits\<close> and every default unit id, \<open>groupCase\<close>
  (either definition) returns \<open>NoChange\<close> exactly when \<open>currentUnits \<subseteq> newUnits\<close>, and
  \<open>NoCompatibleUnits\<close> exactly when \<open>currentUnits \<inter> newUnits\<close> is empty and \<open>currentUnits\<close>
  is not: the default unit plays no part in either, so total loss comes before
  \<open>LostDefaultGraphicUnit\<close>.
\<close>

theorem groupCase_NoChange_NoCompatibleUnits_iff:
  assumes "distinct currentUnits"
  shows "(groupCase currentUnits newUnits dgu = NoChange) = (set currentUnits \<subseteq> set newUnits) \<and>
         (groupCase currentUnits newUnits dgu = NoCompatibleUnits) =
           (set currentUnits \<inter> set newUnits = {} \<and> set currentUnits \<noteq> {}) \<and>
         (groupCase_rev1 currentUnits newUnits dgu = NoChange) = (set currentUnits \<subseteq> set newUnits) \<and>
         (groupCase_rev1 currentUnits newUnits dgu = NoCompatibleUnits) =
           (set currentUnits \<inter> set newUnits = {} \<and> set currentUnits \<noteq> {})"
proof -
  have E: "(set currentUnits - (set currentUnits \<inter> set newUnits) = {}) =
           (set currentUnits \<subseteq> set newUnits)"
    by blast
  have L: "(set currentUnits - (set currentUnits \<inter> set newUnits) = set currentUnits) =
           (set currentUnits \<inter> set newUnits = {})"
    by blast
  have t: "groupCase currentUnits newUnits dgu =
     (if set currentUnits \<subseteq> set newUnits then NoChange
      else if set currentUnits \<inter> set newUnits = {} then NoCompatibleUnits
      else if dgu \<noteq> -99 \<and> dgu \<in> set currentUnits - (set currentUnits \<inter> set newUnits)
        then LostDefaultGraphicUnit
      else LostCompatibleUnits)"
    using groupCase_table [OF assms, of newUnits dgu] by (simp only: Let_def E L)
  have a: "(groupCase currentUnits newUnits dgu = NoChange) = (set currentUnits \<subseteq> set newUnits)"
    by (simp add: t)
  have b: "(groupCase currentUnits newUnits dgu = NoCompatibleUnits) =
           (set currentUnits \<inter> set newUnits = {} \<and> set currentUnits \<noteq> {})"
  proof (cases "set currentUnits \<subseteq> set newUnits")
    case True
    have "groupCase currentUnits newUnits dgu = NoChange"
      using True by (simp only: t if_True)
    then have X: "(groupCase currentUnits newUnits dgu = NoCompatibleUnits) = False"
      by simp
    have i: "set currentUnits \<inter> set newUnits = set currentUnits"
      using True by (rule Int_absorb2)
    have Y: "(set currentUnits \<inter> set newUnits = {} \<and> set currentUnits \<noteq> {}) = False"
      unfolding i by simp
    show ?thesis
      by (simp only: X Y)
  next
    case False
    have ne: "(set currentUnits \<noteq> {}) = True"
      using False by auto
    show ?thesis
    proof (cases "set currentUnits \<inter> set newUnits = {}")
      case True
      have "groupCase currentUnits newUnits dgu = NoCompatibleUnits"
        using False True by (simp add: t)
      then have X: "(groupCase currentUnits newUnits dgu = NoCompatibleUnits) = True"
        by simp
      have Y: "(set currentUnits \<inter> set newUnits = {}) = True"
        using True by simp
      show ?thesis
        by (simp only: X Y ne simp_thms)
    next
      case nonempty: False
      have "groupCase currentUnits newUnits dgu =
              (if dgu \<noteq> -99 \<and> dgu \<in> set currentUnits - (set currentUnits \<inter> set newUnits)
               then LostDefaultGraphicUnit else LostCompatibleUnits)"
        using False nonempty by (simp add: t)
      then have X: "(groupCase currentUnits newUnits dgu = NoCompatibleUnits) = False"
        by (simp split: if_splits)
      have Y: "(set currentUnits \<inter> set newUnits = {}) = False"
        using nonempty by simp
      show ?thesis
        by (simp only: X Y simp_thms)
    qed
  qed
  show ?thesis
    by (simp only: groupCase_rev1_eq a b simp_thms)
qed

theorem groupCase_NoChange_NoCompatibleUnits_iff_witness:
  "distinct [1, 2, 3 :: int] \<and> groupCase [1, 2, 3] [] 1 = NoCompatibleUnits"
proof -
  have d: "distinct [1, 2, 3 :: int]"
    by simp
  have "(groupCase [1, 2, 3] [] 1 = NoCompatibleUnits) =
          (set [1, 2, 3 :: int] \<inter> set [] = {} \<and> set [1, 2, 3 :: int] \<noteq> {})"
    using groupCase_NoChange_NoCompatibleUnits_iff [OF d, of "[]" 1] by simp
  then show ?thesis
    using d by simp
qed

subsection \<open>The resolver on the sentinel and before readiness\<close>

text \<open>
  C6: for every unit id, \<open>unitsCompatibleWithUnit\<close> returns the empty set, and no error,
  when the id is the sentinel \<open>-99\<close> or \<open>pik\<close> is not yet available, whatever the rest of
  the state.
\<close>

theorem unitsCompatibleWithUnit_sentinel_or_not_ready:
  "uid = -99 \<or> \<not> pikAvailable st \<Longrightarrow> unitsCompatibleWithUnit st uid = Inr []"
  by (auto simp: unitsCompatibleWithUnit_def)

theorem unitsCompatibleWithUnit_sentinel_or_not_ready_witness:
  "\<not> pikAvailable (demo_state\<lparr>pikAvailable := False\<rparr>) \<and>
   unitsCompatibleWithUnit (demo_state\<lparr>pikAvailable := False\<rparr>) 100 = Inr []"
proof -
  have h: "(100 :: int) = -99 \<or> \<not> pikAvailable (demo_state\<lparr>pikAvailable := False\<rparr>)"
    by simp
  show ?thesis
    using unitsCompatibleWithUnit_sentinel_or_not_ready [OF h] by simp
qed

subsection \<open>What the resolver returns\<close>

lemma unitFromPColumn_Inr:
  assumes "unitFromPColumn st c = Inr u"
  shows "\<exists>x\<in>set (units st). unit_id x = u \<and> unitIndex x = c \<and> typeOfUnit x \<noteq> meter"
proof -
  from assms obtain x where
    f: "find (\<lambda>o'. unitIndex o' = c \<and> typeOfUnit o' \<noteq> meter) (units st) = Some x" and
    u: "unit_id x = u"
    by (auto simp: unitFromPColumn_def split: option.splits)
  from f have "x \<in> set (units st)" "unitIndex x = c" "typeOfUnit x \<noteq> meter"
    by (auto simp: find_Some_iff)
  with u show ?thesis
    by blast
qed

lemma unitFromPColumn_error: "unitFromPColumn st c = Inl e \<Longrightarrow> e = TypeError"
  by (auto simp: unitFromPColumn_def split: option.splits)

lemma set_columnsLoop:
  "columnsLoop st row ks acc = Inr us \<Longrightarrow>
   set us = set acc \<union>
     {u. \<exists>k\<in>set ks. pikEntry (pik st) row k = Inr True \<and> unitFromPColumn st (int k) = Inr u}"
proof (induction ks arbitrary: acc)
  case Nil
  then show ?case by simp
next
  case (Cons k ks)
  show ?case
  proof (cases "pikEntry (pik st) row k")
    case (Inl e)
    with Cons.prems show ?thesis by simp
  next
    case (Inr b)
    show ?thesis
    proof (cases b)
      case False
      with Inr Cons.prems have "columnsLoop st row ks acc = Inr us" by simp
      from Cons.IH [OF this] Inr False show ?thesis by auto
    next
      case True
      show ?thesis
      proof (cases "unitFromPColumn st (int k)")
        case (Inl e)
        with Inr True Cons.prems show ?thesis by simp
      next
        case u: (Inr u)
        with Inr True Cons.prems have "columnsLoop st row ks (Set_add acc u) = Inr us" by simp
        from Cons.IH [OF this] Inr True u show ?thesis by (auto simp: Set_add_def)
      qed
    qed
  qed
qed

lemma distinct_columnsLoop:
  "columnsLoop st row ks acc = Inr us \<Longrightarrow> distinct acc \<Longrightarrow> distinct us"
proof (induction ks arbitrary: acc)
  case Nil
  then show ?case by simp
next
  case (Cons k ks)
  have d: "distinct (Set_add acc u)" for u
    using Cons.prems(2) by (simp add: Set_add_def)
  from Cons.prems(1) show ?case
    by (auto split: sum.splits if_splits intro: Cons.IH [OF _ d] Cons.IH [OF _ Cons.prems(2)])
qed

lemma unitsCompatibleWithUnit_Inr:
  assumes "unitsCompatibleWithUnit st uid = Inr us"
  shows "us = [] \<or>
         (\<exists>row row0 rest. uid \<noteq> -99 \<and> pikAvailable st \<and> pRowFromUnit st uid = Inr row \<and>
            pik st = row0 # rest \<and> columnsLoop st row [0..<length row0] [] = Inr us)"
  using assms
  by (cases "uid \<noteq> -99 \<and> pikAvailable st")
     (auto simp: unitsCompatibleWithUnit_def split: sum.splits list.splits)

lemma unitsCompatibleWithUnit_members:
  assumes "unitsCompatibleWithUnit st uid = Inr us" and "x \<in> set us"
  shows "\<exists>k. unitFromPColumn st (int k) = Inr x"
proof -
  from unitsCompatibleWithUnit_Inr [OF assms(1)] assms(2) obtain row ks where
    "columnsLoop st row ks [] = Inr us"
    by auto
  from set_columnsLoop [OF this] assms(2) show ?thesis
    by auto
qed

lemma unitsCompatibleWithUnit_distinct:
  assumes "unitsCompatibleWithUnit st uid = Inr us"
  shows "distinct us"
proof (cases "us = []")
  case True
  then show ?thesis by simp
next
  case False
  with unitsCompatibleWithUnit_Inr [OF assms] obtain row ks where
    "columnsLoop st row ks [] = Inr us"
    by auto
  from distinct_columnsLoop [OF this] show ?thesis
    by simp
qed

text \<open>
  C10: for every unit id, every element of the set that \<open>unitsCompatibleWithUnit\<close> returns
  is the id of a unit of the catalog whose type is not \<open>meter\<close>, because every column is
  mapped back by \<open>unitFromPColumn\<close>; and where the ids of the catalog are unique, no unit
  with that id is a meter unit.
\<close>

theorem unitsCompatibleWithUnit_only_non_meter_units:
  assumes "unitsCompatibleWithUnit st uid = Inr us" and "x \<in> set us"
  shows "(\<exists>u\<in>set (units st). unit_id u = x \<and> typeOfUnit u \<noteq> meter) \<and>
         (distinct (map unit_id (units st)) \<longrightarrow>
            (\<forall>u\<in>set (units st). unit_id u = x \<longrightarrow> typeOfUnit u \<noteq> meter))"
proof -
  from unitsCompatibleWithUnit_members [OF assms] obtain k where
    "unitFromPColumn st (int k) = Inr x"
    by blast
  from unitFromPColumn_Inr [OF this] obtain u where
    u: "u \<in> set (units st)" "unit_id u = x" "typeOfUnit u \<noteq> meter"
    by blast
  have "typeOfUnit v \<noteq> meter"
    if d: "distinct (map unit_id (units st))" and v: "v \<in> set (units st)" "unit_id v = x" for v
  proof -
    from d have "inj_on unit_id (set (units st))"
      by (simp add: distinct_map)
    with u v have "v = u"
      by (auto dest: inj_onD)
    with u show ?thesis
      by simp
  qed
  with u show ?thesis
    by blast
qed

theorem unitsCompatibleWithUnit_only_non_meter_units_witness:
  "unitsCompatibleWithUnit demo_state 101 = Inr [6, 7] \<and> 7 \<in> set [6, 7 :: int] \<and>
   distinct (map unit_id (units demo_state)) \<and>
   (\<exists>u\<in>set (units demo_state). unit_id u = 7 \<and> typeOfUnit u \<noteq> meter)"
proof -
  have r: "unitsCompatibleWithUnit demo_state 101 = Inr [6, 7]"
    by code_simp
  have m: "7 \<in> set [6, 7 :: int]"
    by simp
  have d: "distinct (map unit_id (units demo_state))"
    by code_simp
  from unitsCompatibleWithUnit_only_non_meter_units [OF r m] r m d show ?thesis
    by blast
qed

subsection \<open>Units missing from the catalog\<close>

lemma pRowFromUnit_not_found:
  "\<forall>x\<in>set (units st). \<not> (unit_id x = uid \<and> typeOfUnit x = meter) \<Longrightarrow>
   pRowFromUnit st uid = Inl TypeError"
proof -
  assume "\<forall>x\<in>set (units st). \<not> (unit_id x = uid \<and> typeOfUnit x = meter)"
  then have "find (\<lambda>o'. unit_id o' = uid \<and> typeOfUnit o' = meter) (units st) = None"
    by (simp add: find_None_iff)
  then show ?thesis
    by (simp add: pRowFromUnit_def)
qed

lemma unitFromPColumn_not_found:
  "\<forall>x\<in>set (units st). \<not> (unitIndex x = c \<and> typeOfUnit x \<noteq> meter) \<Longrightarrow>
   unitFromPColumn st c = Inl TypeError"
proof -
  assume "\<forall>x\<in>set (units st). \<not> (unitIndex x = c \<and> typeOfUnit x \<noteq> meter)"
  then have "find (\<lambda>o'. unitIndex o' = c \<and> typeOfUnit o' \<noteq> meter) (units st) = None"
    by (simp add: find_None_iff)
  then show ?thesis
    by (simp add: unitFromPColumn_def)
qed

lemma pikEntry_Inr: "pikEntry p row k = Inr b \<Longrightarrow> 0 \<le> row \<and> nat row < length p"
  by (simp add: pikEntry_def split: if_splits)

lemma pikEntry_row_ok:
  "0 \<le> row \<and> nat row < length p \<Longrightarrow> \<exists>b. pikEntry p row k = Inr b"
  by (simp add: pikEntry_def)

lemma columnsLoop_missing_unit:
  assumes "k \<in> set ks" and "pikEntry (pik st) row k = Inr True"
    and "unitFromPColumn st (int k) = Inl TypeError"
  shows "columnsLoop st row ks acc = Inl TypeError"
  using assms(1)
proof (induction ks arbitrary: acc)
  case Nil
  then show ?case by simp
next
  case (Cons j ks)
  show ?case
  proof (cases "j = k")
    case True
    with assms(2,3) show ?thesis by simp
  next
    case False
    with Cons.prems have k: "k \<in> set ks" by simp
    from pikEntry_row_ok [OF pikEntry_Inr [OF assms(2)]] obtain b where
      b: "pikEntry (pik st) row j = Inr b"
      by blast
    show ?thesis
    proof (cases "b \<and> (\<exists>e. unitFromPColumn st (int j) = Inl e)")
      case True
      then obtain e where "unitFromPColumn st (int j) = Inl e" by blast
      moreover from this have "e = TypeError" by (rule unitFromPColumn_error)
      ultimately show ?thesis using True b by simp
    next
      case False
      then show ?thesis
        using b Cons.IH [OF k] by (cases b; cases "unitFromPColumn st (int j)") auto
    qed
  qed
qed

lemma metersLoop_error:
  "m \<in> set ms \<Longrightarrow> meterUnits st m = Inl e \<Longrightarrow> \<exists>e'. metersLoop st ms f acc = Inl e'"
proof (induction ms arbitrary: f acc)
  case Nil
  then show ?case by simp
next
  case (Cons a ms)
  show ?case
  proof (cases "meterUnits st a")
    case (Inl e')
    then show ?thesis by simp
  next
    case (Inr mu)
    with Cons.prems have "m \<in> set ms" by auto
    from Cons.IH [OF this Cons.prems(2)] Inr show ?thesis by simp
  qed
qed

lemma resolver_fails_on_missing_unit:
  assumes "uid \<noteq> -99" and "pikAvailable st"
    and "(\<forall>x\<in>set (units st). \<not> (unit_id x = uid \<and> typeOfUnit x = meter)) \<or>
         (\<exists>row k. pRowFromUnit st uid = Inr row \<and> k < length (pik st ! 0) \<and>
            pikEntry (pik st) row k = Inr True \<and>
            (\<forall>x\<in>set (units st). \<not> (unitIndex x = int k \<and> typeOfUnit x \<noteq> meter)))"
  shows "unitsCompatibleWithUnit st uid = Inl TypeError"
  using assms(3)
proof (elim disjE exE conjE)
  assume "\<forall>x\<in>set (units st). \<not> (unit_id x = uid \<and> typeOfUnit x = meter)"
  then have "pRowFromUnit st uid = Inl TypeError"
    by (rule pRowFromUnit_not_found)
  with assms(1,2) show ?thesis
    by (simp add: unitsCompatibleWithUnit_def)
next
  fix row k
  assume row: "pRowFromUnit st uid = Inr row" and k: "k < length (pik st ! 0)"
    and e: "pikEntry (pik st) row k = Inr True"
    and n: "\<forall>x\<in>set (units st). \<not> (unitIndex x = int k \<and> typeOfUnit x \<noteq> meter)"
  from pikEntry_Inr [OF e] obtain row0 rest where p: "pik st = row0 # rest"
    by (cases "pik st") auto
  with k have "k \<in> set [0..<length row0]"
    by simp
  moreover from n have "unitFromPColumn st (int k) = Inl TypeError"
    by (rule unitFromPColumn_not_found)
  ultimately have "columnsLoop st row [0..<length row0] [] = Inl TypeError"
    using e by (intro columnsLoop_missing_unit)
  with assms(1,2) row p show ?thesis
    by (simp add: unitsCompatibleWithUnit_def)
qed

text \<open>
  C7, as the code has it: for a unit id other than \<open>-99\<close>, with \<open>pik\<close> available: when no
  meter unit of the catalog has that id, or when a column that the loop visits holds true
  in the unit's row and no unit of the catalog other than a meter unit has that column as
  its index, the resolver returns no set: it ends with the \<^verbatim>\<open>TypeError\<close> of reading a
  property of \<^verbatim>\<open>undefined\<close>. The error reaches the callers: \<open>getCompatibleUnits\<close> of a
  meter with that unit ends with it, and \<open>unitsCompatibleWithMeters\<close> of any set holding
  such a meter ends with an error. The code has no error \<^verbatim>\<open>UnitNotFound\<close> of its own: a
  unit missing from the catalog fails with the same error as a missing meter, a missing
  group or a missing row of \<open>pik\<close>.
\<close>

theorem unitsCompatibleWithUnit_missing_unit_fails:
  assumes "uid \<noteq> -99" and "pikAvailable st"
    and "(\<forall>x\<in>set (units st). \<not> (unit_id x = uid \<and> typeOfUnit x = meter)) \<or>
         (\<exists>row k. pRowFromUnit st uid = Inr row \<and> k < length (pik st ! 0) \<and>
            pikEntry (pik st) row k = Inr True \<and>
            (\<forall>x\<in>set (units st). \<not> (unitIndex x = int k \<and> typeOfUnit x \<noteq> meter)))"
  shows "unitsCompatibleWithUnit st uid = Inl TypeError \<and>
         (\<forall>m md ms. map_of (byMeterID st) m = Some md \<and> unitId md = uid \<and> m \<in> set ms \<longrightarrow>
            getCompatibleUnits st m Meter = Inl TypeError \<and>
            (\<exists>e. unitsCompatibleWithMeters st ms = Inl e))"
proof -
  have r: "unitsCompatibleWithUnit st uid = Inl TypeError"
    using assms by (rule resolver_fails_on_missing_unit)
  have "getCompatibleUnits st m Meter = Inl TypeError \<and>
        (\<exists>e. unitsCompatibleWithMeters st ms = Inl e)"
    if m: "map_of (byMeterID st) m = Some md" "unitId md = uid" "m \<in> set ms" for m md ms
  proof
    show "getCompatibleUnits st m Meter = Inl TypeError"
      using m r by (simp add: getCompatibleUnits_def)
    have "meterUnits st m = Inl TypeError"
      using m r assms(1) by (simp add: meterUnits_def)
    from metersLoop_error [OF m(3) this] show "\<exists>e. unitsCompatibleWithMeters st ms = Inl e"
      by (simp add: unitsCompatibleWithMeters_def)
  qed
  with r show ?thesis
    by blast
qed

theorem unitsCompatibleWithUnit_missing_unit_fails_witness:
  "(5 :: int) \<noteq> -99 \<and> pikAvailable demo_state \<and>
   unitsCompatibleWithUnit demo_state 5 = Inl TypeError \<and>
   (101 :: int) \<noteq> -99 \<and> pikAvailable demo_state_missing_column \<and>
   pRowFromUnit demo_state_missing_column 101 = Inr 1 \<and>
   2 < length (pik demo_state_missing_column ! 0) \<and>
   pikEntry (pik demo_state_missing_column) 1 2 = Inr True \<and>
   unitsCompatibleWithUnit demo_state_missing_column 101 = Inl TypeError \<and>
   getCompatibleUnits demo_state_missing_column 2 Meter = Inl TypeError"
proof -
  have a1: "(5 :: int) \<noteq> -99" by simp
  have a2: "pikAvailable demo_state" by code_simp
  have a3: "\<forall>x\<in>set (units demo_state). \<not> (unit_id x = 5 \<and> typeOfUnit x = meter)"
    by code_simp
  have b1: "(101 :: int) \<noteq> -99" by simp
  have b2: "pikAvailable demo_state_missing_column" by code_simp
  have b3: "pRowFromUnit demo_state_missing_column 101 = Inr 1" by code_simp
  have b4: "2 < length (pik demo_state_missing_column ! 0)" by code_simp
  have b5: "pikEntry (pik demo_state_missing_column) 1 2 = Inr True" by code_simp
  have b6: "\<forall>x\<in>set (units demo_state_missing_column).
              \<not> (unitIndex x = int 2 \<and> typeOfUnit x \<noteq> meter)"
    by code_simp
  have b7: "map_of (byMeterID demo_state_missing_column) 2 =
              Some \<lparr>meter_id = 2, meter_identifier = ''m2'', unitId = 101\<rparr>"
    by code_simp
  have A: "unitsCompatibleWithUnit demo_state 5 = Inl TypeError"
    using unitsCompatibleWithUnit_missing_unit_fails [OF a1 a2] a3 by blast
  have B: "unitsCompatibleWithUnit demo_state_missing_column 101 = Inl TypeError \<and>
           getCompatibleUnits demo_state_missing_column 2 Meter = Inl TypeError"
    using unitsCompatibleWithUnit_missing_unit_fails [OF b1 b2] b3 b4 b5 b6 b7
    by (metis MeterData.select_convs(3) list.set_intros(1))
  from a1 a2 A b1 b2 b3 b4 b5 B show ?thesis
    by blast
qed

theorem unitsCompatibleWithUnit_UnitNotFound_counterexample:
  "(5 :: int) \<noteq> -99 \<and> pikAvailable demo_state \<and>
   pRowFromUnit demo_state 5 = Inl TypeError \<and>
   unitsCompatibleWithUnit demo_state 5 = Inl TypeError \<and>
   map_of (byMeterID demo_state) 9 = None \<and>
   getCompatibleUnits demo_state 9 Meter = Inl TypeError \<and>
   unitsCompatibleWithUnit demo_state 5 = getCompatibleUnits demo_state 9 Meter \<and>
   map_of (byGroupID demo_state) 9 = None \<and>
   metersInGroup demo_state 9 = Inl TypeError \<and>
   unitsCompatibleWithUnit demo_state 5 = metersInGroup demo_state 9 \<and>
   unitsCompatibleWithUnit (demo_state\<lparr>pik := []\<rparr>) 100 = Inl TypeError \<and>
   unitsCompatibleWithUnit demo_state 5 = unitsCompatibleWithUnit (demo_state\<lparr>pik := []\<rparr>) 100"
proof -
  have a: "pikAvailable demo_state"
    by code_simp
  have b: "pRowFromUnit demo_state 5 = Inl TypeError"
    by code_simp
  have c: "unitsCompatibleWithUnit demo_state 5 = Inl TypeError"
    by code_simp
  have d: "map_of (byMeterID demo_state) 9 = None"
    by code_simp
  have e: "getCompatibleUnits demo_state 9 Meter = Inl TypeError"
    by code_simp
  have f: "map_of (byGroupID demo_state) 9 = None"
    by code_simp
  have g: "metersInGroup demo_state 9 = Inl TypeError"
    by code_simp
  have h: "unitsCompatibleWithUnit (demo_state\<lparr>pik := []\<rparr>) 100 = Inl TypeError"
    by code_simp
  show ?thesis
    by (simp only: a b c d e f g h) simp
qed

subsection \<open>The intersection over a set of meters\<close>

lemma metersLoop_returns:
  "\<forall>m\<in>set ms. \<exists>mu. meterUnits st m = Inr mu \<Longrightarrow> \<exists>us. metersLoop st ms f acc = Inr us"
proof (induction ms arbitrary: f acc)
  case Nil
  then show ?case by simp
next
  case (Cons a ms)
  then obtain mu where "meterUnits st a = Inr mu"
    by auto
  moreover have "\<exists>us. metersLoop st ms f' acc' = Inr us" for f' acc'
    using Cons by simp
  ultimately show ?case
    by simp
qed

lemma metersLoop_set:
  "metersLoop st ms f acc = Inr us \<Longrightarrow>
   (\<forall>m\<in>set ms. \<exists>mu. meterUnits st m = Inr mu) \<and>
   set us =
     (if f \<and> ms \<noteq> [] then {u. \<forall>m\<in>set ms. \<exists>mu. meterUnits st m = Inr mu \<and> u \<in> set mu}
      else set acc \<inter> {u. \<forall>m\<in>set ms. \<exists>mu. meterUnits st m = Inr mu \<and> u \<in> set mu})"
proof (induction ms arbitrary: f acc)
  case Nil
  then show ?case by simp
next
  case (Cons a ms)
  from Cons.prems obtain mu where mu: "meterUnits st a = Inr mu"
    by (cases "meterUnits st a") auto
  let ?I = "{u. \<forall>m\<in>set ms. \<exists>mu. meterUnits st m = Inr mu \<and> u \<in> set mu}"
  have I: "{u. \<forall>m\<in>set (a # ms). \<exists>mu. meterUnits st m = Inr mu \<and> u \<in> set mu} = set mu \<inter> ?I"
    using mu by auto
  show ?case
  proof (cases f)
    case True
    with Cons.prems mu have "metersLoop st ms False mu = Inr us"
      by simp
    from Cons.IH [OF this] have "(\<forall>m\<in>set ms. \<exists>mu. meterUnits st m = Inr mu)" "set us = set mu \<inter> ?I"
      by simp_all
    with mu True show ?thesis
      unfolding I by simp
  next
    case False
    with Cons.prems mu have "metersLoop st ms False (setIntersect acc mu) = Inr us"
      by simp
    from Cons.IH [OF this]
    have "(\<forall>m\<in>set ms. \<exists>mu. meterUnits st m = Inr mu)" "set us = set (setIntersect acc mu) \<inter> ?I"
      by simp_all
    with mu False show ?thesis
      unfolding I by (simp add: set_setIntersect Int_assoc)
  qed
qed

lemma unitsCompatibleWithMeters_set:
  assumes "unitsCompatibleWithMeters st ms = Inr us" and "ms \<noteq> []"
  shows "set us = {u. \<forall>m\<in>set ms. \<exists>mu. meterUnits st m = Inr mu \<and> u \<in> set mu}"
    and "\<forall>m\<in>set ms. \<exists>mu. meterUnits st m = Inr mu"
  using metersLoop_set [of st ms True "[]" us] assms
  by (simp_all add: unitsCompatibleWithMeters_def)

lemma unitsCompatibleWithMeters_order:
  assumes "unitsCompatibleWithMeters st ms = Inr us" and "ms \<noteq> []" and "set ms' = set ms"
  shows "\<exists>us'. unitsCompatibleWithMeters st ms' = Inr us' \<and> set us' = set us"
proof -
  from assms(2,3) have ne: "ms' \<noteq> []"
    by auto
  from unitsCompatibleWithMeters_set(2) [OF assms(1,2)] assms(3)
  have "\<forall>m\<in>set ms'. \<exists>mu. meterUnits st m = Inr mu"
    by simp
  from metersLoop_returns [OF this] obtain us' where
    us': "unitsCompatibleWithMeters st ms' = Inr us'"
    unfolding unitsCompatibleWithMeters_def by blast
  from unitsCompatibleWithMeters_set(1) [OF us' ne] unitsCompatibleWithMeters_set(1) [OF assms(1,2)] assms(3)
  have "set us' = set us"
    by simp
  with us' show ?thesis
    by blast
qed

lemma meterUnits_distinct: "meterUnits st m = Inr mu \<Longrightarrow> distinct mu"
  by (auto simp: meterUnits_def split: option.splits if_splits
      dest: unitsCompatibleWithUnit_distinct)

lemma metersLoop_distinct:
  "metersLoop st ms f acc = Inr us \<Longrightarrow> distinct acc \<Longrightarrow> distinct us"
proof (induction ms arbitrary: f acc)
  case Nil
  then show ?case by simp
next
  case (Cons a ms)
  from Cons.prems(1) obtain mu where mu: "meterUnits st a = Inr mu"
    by (cases "meterUnits st a") auto
  from Cons.prems(1) mu have "metersLoop st ms False (if f then mu else setIntersect acc mu) = Inr us"
    by (cases f) simp_all
  moreover have "distinct (if f then mu else setIntersect acc mu)"
    using mu by (simp add: meterUnits_distinct distinct_setIntersect)
  ultimately show ?case
    by (rule Cons.IH)
qed

text \<open>The sets that the menus pass to the classifier hold no element twice.\<close>

lemma unitsCompatibleWithMeters_distinct:
  "unitsCompatibleWithMeters st ms = Inr us \<Longrightarrow> distinct us"
  using metersLoop_distinct [of st ms True "[]" us] by (simp add: unitsCompatibleWithMeters_def)

lemma meterUnits_eq:
  "map_of (byMeterID st) m = Some md \<Longrightarrow> meterUnits st m = unitsCompatibleWithUnit st (unitId md)"
  by (simp add: meterUnits_def unitsCompatibleWithUnit_def)

lemma unitsCompatibleWithMeters_singleton:
  "unitsCompatibleWithMeters st [m] = meterUnits st m"
  by (cases "meterUnits st m") (simp_all add: unitsCompatibleWithMeters_def)

lemma unitsCompatibleWithMeters_sentinel:
  assumes "map_of (byMeterID st) m = Some md" and "unitId md = -99" and "m \<in> set ms"
    and "unitsCompatibleWithMeters st ms = Inr us"
  shows "us = []"
proof -
  from assms(1,2) have e: "meterUnits st m = Inr []"
    by (simp add: meterUnits_def)
  from assms(3) have "ms \<noteq> []"
    by auto
  note s = unitsCompatibleWithMeters_set(1) [OF assms(4) this]
  have "x \<notin> set us" for x
  proof
    assume "x \<in> set us"
    with s have "\<forall>m\<in>set ms. \<exists>mu. meterUnits st m = Inr mu \<and> x \<in> set mu"
      by simp
    with assms(3) obtain mu where "meterUnits st m = Inr mu" "x \<in> set mu"
      by blast
    with e show False
      by simp
  qed
  then show ?thesis
    by (cases us) auto
qed

text \<open>
  C5: \<open>unitsCompatibleWithMeters\<close> of the empty set is the empty set; of a set with the one
  meter \<open>m\<close> it is \<open>unitsCompatibleWithUnit\<close> of the unit of \<open>m\<close>; a meter whose unit is
  \<open>-99\<close> contributes the empty set and makes the result of every set that holds it empty;
  and the result for a set that is not empty is the intersection of the sets of its
  meters, whatever the order the meters are visited in (any list with the same elements
  returns, with the same set).
\<close>

theorem unitsCompatibleWithMeters_intersection:
  "unitsCompatibleWithMeters st [] = Inr [] \<and>
   (\<forall>m md. map_of (byMeterID st) m = Some md \<longrightarrow>
      unitsCompatibleWithMeters st [m] = unitsCompatibleWithUnit st (unitId md) \<and>
      (unitId md = -99 \<longrightarrow>
         meterUnits st m = Inr [] \<and>
         (\<forall>ms us. m \<in> set ms \<and> unitsCompatibleWithMeters st ms = Inr us \<longrightarrow> us = []))) \<and>
   (\<forall>ms us. ms \<noteq> [] \<and> unitsCompatibleWithMeters st ms = Inr us \<longrightarrow>
      set us = {u. \<forall>m\<in>set ms. \<exists>mu. meterUnits st m = Inr mu \<and> u \<in> set mu} \<and>
      (\<forall>ms'. set ms' = set ms \<longrightarrow>
         (\<exists>us'. unitsCompatibleWithMeters st ms' = Inr us' \<and> set us' = set us)))"
proof (intro conjI allI impI)
  show "unitsCompatibleWithMeters st [] = Inr []"
    by (simp add: unitsCompatibleWithMeters_def)
next
  fix m md
  assume "map_of (byMeterID st) m = Some md"
  then show "unitsCompatibleWithMeters st [m] = unitsCompatibleWithUnit st (unitId md)"
    by (simp add: unitsCompatibleWithMeters_singleton meterUnits_eq)
next
  fix m md
  assume "map_of (byMeterID st) m = Some md" and "unitId md = -99"
  then show "meterUnits st m = Inr []"
    by (simp add: meterUnits_def)
next
  fix m md ms us
  assume "map_of (byMeterID st) m = Some md" and "unitId md = -99"
    and "m \<in> set ms \<and> unitsCompatibleWithMeters st ms = Inr us"
  then show "us = []"
    using unitsCompatibleWithMeters_sentinel [of st m md ms us] by simp
next
  fix ms us
  assume "ms \<noteq> [] \<and> unitsCompatibleWithMeters st ms = Inr us"
  then show "set us = {u. \<forall>m\<in>set ms. \<exists>mu. meterUnits st m = Inr mu \<and> u \<in> set mu}"
    using unitsCompatibleWithMeters_set(1) [of st ms us] by simp
next
  fix ms us ms'
  assume "ms \<noteq> [] \<and> unitsCompatibleWithMeters st ms = Inr us" and "set ms' = set ms"
  then show "\<exists>us'. unitsCompatibleWithMeters st ms' = Inr us' \<and> set us' = set us"
    using unitsCompatibleWithMeters_order [of st ms us ms'] by simp
qed

theorem unitsCompatibleWithMeters_intersection_witness:
  "map_of (byMeterID demo_state) 3 = Some \<lparr>meter_id = 3, meter_identifier = ''m3'', unitId = -99\<rparr> \<and>
   unitsCompatibleWithMeters demo_state [3] = unitsCompatibleWithUnit demo_state (-99) \<and>
   meterUnits demo_state 3 = Inr [] \<and>
   unitsCompatibleWithMeters demo_state [2, 3] = Inr [] \<and>
   unitsCompatibleWithMeters demo_state [2, 4] = Inr [7] \<and>
   set [4, 2 :: int] = set [2, 4] \<and>
   (\<exists>us'. unitsCompatibleWithMeters demo_state [4, 2] = Inr us' \<and> set us' = set [7])"
proof -
  let ?md = "\<lparr>meter_id = 3, meter_identifier = ''m3'', unitId = -99\<rparr>"
  have a: "map_of (byMeterID demo_state) 3 = Some ?md"
    by code_simp
  have b: "unitId ?md = -99"
    by simp
  have c: "(3 :: int) \<in> set [2, 3]"
    by simp
  have d: "unitsCompatibleWithMeters demo_state [2, 3] = Inr []"
    by code_simp
  have e: "[2, 4 :: int] \<noteq> []"
    by simp
  have f: "unitsCompatibleWithMeters demo_state [2, 4] = Inr [7]"
    by code_simp
  have g: "set [4, 2 :: int] = set [2, 4]"
    by auto
  note t = unitsCompatibleWithMeters_intersection [of demo_state]
  from t a b have 1: "unitsCompatibleWithMeters demo_state [3] = unitsCompatibleWithUnit demo_state (-99)"
    by (metis MeterData.select_convs(3))
  from t a b have 2: "meterUnits demo_state 3 = Inr []"
    by blast
  from t a b c d have 3: "unitsCompatibleWithMeters demo_state [2, 3] = Inr [] \<and> 3 \<in> set [2, 3 :: int]"
    by blast
  from t e f g have 4: "\<exists>us'. unitsCompatibleWithMeters demo_state [4, 2] = Inr us' \<and> set us' = set [7]"
    by blast
  from a 1 2 3 f g 4 show ?thesis
    by blast
qed

subsection \<open>Larger sets of meters\<close>

lemma meters_subset_units_superset:
  assumes "A \<noteq> []" and "set A \<subseteq> set B" and "unitsCompatibleWithMeters st B = Inr ub"
  shows "\<exists>ua. unitsCompatibleWithMeters st A = Inr ua \<and> set ub \<subseteq> set ua"
proof -
  from assms(1,2) have B: "B \<noteq> []"
    by auto
  note sB = unitsCompatibleWithMeters_set [OF assms(3) B]
  from sB(2) assms(2) have "\<forall>m\<in>set A. \<exists>mu. meterUnits st m = Inr mu"
    by blast
  from metersLoop_returns [OF this] obtain ua where
    ua: "unitsCompatibleWithMeters st A = Inr ua"
    unfolding unitsCompatibleWithMeters_def by blast
  note sA = unitsCompatibleWithMeters_set(1) [OF ua assms(1)]
  have "set ub \<subseteq> set ua"
    unfolding sA sB(1) using assms(2) by blast
  with ua show ?thesis
    by blast
qed

text \<open>
  C3, as the code has it: for sets of meters \<open>A \<subseteq> B\<close> with \<open>A\<close> not empty, when
  \<open>unitsCompatibleWithMeters\<close> returns on \<open>B\<close> it returns on \<open>A\<close>, and its set for \<open>B\<close> is a
  subset of its set for \<open>A\<close>. For the empty \<open>A\<close> the statement fails: the empty set of meters
  gives the empty set of units, and a set \<open>B\<close> of one meter gives the units of that meter.
\<close>

theorem unitsCompatibleWithMeters_antimono:
  assumes "A \<noteq> []" and "set A \<subseteq> set B" and "unitsCompatibleWithMeters st B = Inr ub"
  shows "\<exists>ua. unitsCompatibleWithMeters st A = Inr ua \<and> set ub \<subseteq> set ua"
  using assms by (rule meters_subset_units_superset)

theorem unitsCompatibleWithMeters_antimono_witness:
  "[2 :: int] \<noteq> [] \<and> set [2 :: int] \<subseteq> set [2, 4] \<and>
   unitsCompatibleWithMeters demo_state [2, 4] = Inr [7] \<and>
   unitsCompatibleWithMeters demo_state [2] = Inr [6, 7] \<and>
   (\<exists>ua. unitsCompatibleWithMeters demo_state [2] = Inr ua \<and> set [7] \<subseteq> set ua)"
proof -
  have a: "[2 :: int] \<noteq> []"
    by simp
  have b: "set [2 :: int] \<subseteq> set [2, 4]"
    by simp
  have c: "unitsCompatibleWithMeters demo_state [2, 4] = Inr [7]"
    by code_simp
  have d: "unitsCompatibleWithMeters demo_state [2] = Inr [6, 7]"
    by code_simp
  from unitsCompatibleWithMeters_antimono [OF a b c] a b c d show ?thesis
    by blast
qed

theorem unitsCompatibleWithMeters_mono_counterexample:
  "set ([] :: int list) \<subseteq> set [2] \<and>
   unitsCompatibleWithMeters demo_state [2] = Inr [6, 7] \<and>
   unitsCompatibleWithMeters demo_state [] = Inr [] \<and>
   \<not> set [6, 7 :: int] \<subseteq> set []"
proof -
  have "unitsCompatibleWithMeters demo_state [2] = Inr [6, 7]"
    by code_simp
  moreover have "unitsCompatibleWithMeters demo_state [] = Inr []"
    by code_simp
  ultimately show ?thesis
    by simp
qed

subsection \<open>Menu options\<close>

lemma meterOptionsLoop_rev1_spec:
  "meterOptionsLoop_rev1 st cu d ms acc = Inr opts \<Longrightarrow>
   \<exists>new. opts = acc @ new \<and>
     list_all2 (\<lambda>m opt. option_value opt = meter_id m \<and>
        (\<exists>c. getCompatibilityChangeCase_rev1 st cu (meter_id m) Meter d = Inr c \<and>
             isDisabled opt = (c = NoCompatibleUnits))) ms new"
proof (induction ms arbitrary: acc)
  case Nil
  then show ?case by simp
next
  case (Cons m ms)
  from Cons.prems obtain c where
    c: "getCompatibilityChangeCase_rev1 st cu (meter_id m) Meter d = Inr c"
    by (cases "getCompatibilityChangeCase_rev1 st cu (meter_id m) Meter d") (auto simp: Let_def)
  let ?opt = "\<lparr>label = meter_identifier m, option_value = meter_id m,
                 isDisabled = False, style = None\<rparr>"
  let ?o = "if c = NoCompatibleUnits then ?opt\<lparr>isDisabled := True\<rparr> else ?opt"
  from Cons.prems c have "meterOptionsLoop_rev1 st cu d ms (acc @ [?o]) = Inr opts"
    by (simp add: Let_def)
  from Cons.IH [OF this] obtain new where
    new: "opts = (acc @ [?o]) @ new" and
    all: "list_all2 (\<lambda>m opt. option_value opt = meter_id m \<and>
        (\<exists>c. getCompatibilityChangeCase_rev1 st cu (meter_id m) Meter d = Inr c \<and>
             isDisabled opt = (c = NoCompatibleUnits))) ms new"
    by blast
  have "option_value ?o = meter_id m \<and> isDisabled ?o = (c = NoCompatibleUnits)"
    by simp
  with c all have "list_all2 (\<lambda>m opt. option_value opt = meter_id m \<and>
        (\<exists>c. getCompatibilityChangeCase_rev1 st cu (meter_id m) Meter d = Inr c \<and>
             isDisabled opt = (c = NoCompatibleUnits))) (m # ms) (?o # new)"
    by (simp del: SelectOption.simps)
  moreover from new have "opts = acc @ (?o # new)"
    by simp
  ultimately show ?case
    by blast
qed

lemma meterOptionsLoop_spec:
  "meterOptionsLoop st cu d ms acc = Inr opts \<Longrightarrow>
   \<exists>new. opts = acc @ new \<and>
     list_all2 (\<lambda>m opt. option_value opt = meter_id m \<and>
        (\<exists>c. getCompatibilityChangeCase st cu (meter_id m) Meter d = Inr c \<and>
             isDisabled opt = (c = NoCompatibleUnits))) ms new"
proof (induction ms arbitrary: acc)
  case Nil
  then show ?case by simp
next
  case (Cons m ms)
  from Cons.prems obtain c where
    c: "getCompatibilityChangeCase st cu (meter_id m) Meter d = Inr c"
    by (cases "getCompatibilityChangeCase st cu (meter_id m) Meter d") (auto simp: Let_def)
  let ?opt = "\<lparr>label = meter_identifier m, option_value = meter_id m,
                 isDisabled = False, style = Some []\<rparr>"
  let ?o = "if c = NoCompatibleUnits then ?opt\<lparr>isDisabled := True\<rparr>
            else ?opt\<lparr>style := Some (getMenuOptionFont c)\<rparr>"
  from Cons.prems c have "meterOptionsLoop st cu d ms (acc @ [?o]) = Inr opts"
    by (simp add: Let_def)
  from Cons.IH [OF this] obtain new where
    new: "opts = (acc @ [?o]) @ new" and
    all: "list_all2 (\<lambda>m opt. option_value opt = meter_id m \<and>
        (\<exists>c. getCompatibilityChangeCase st cu (meter_id m) Meter d = Inr c \<and>
             isDisabled opt = (c = NoCompatibleUnits))) ms new"
    by blast
  have "option_value ?o = meter_id m \<and> isDisabled ?o = (c = NoCompatibleUnits)"
    by simp
  with c all have "list_all2 (\<lambda>m opt. option_value opt = meter_id m \<and>
        (\<exists>c. getCompatibilityChangeCase st cu (meter_id m) Meter d = Inr c \<and>
             isDisabled opt = (c = NoCompatibleUnits))) (m # ms) (?o # new)"
    by (simp del: SelectOption.simps)
  moreover from new have "opts = acc @ (?o # new)"
    by simp
  ultimately show ?case
    by blast
qed

lemma groupOptionsLoop_spec:
  "groupOptionsLoop st cu d ms acc = Inr opts \<Longrightarrow>
   \<exists>new. opts = acc @ new \<and>
     list_all2 (\<lambda>m opt. option_value opt = group_id m \<and>
        (\<exists>c. getCompatibilityChangeCase st cu (group_id m) Group d = Inr c \<and>
             isDisabled opt = (c = NoCompatibleUnits))) ms new"
proof (induction ms arbitrary: acc)
  case Nil
  then show ?case by simp
next
  case (Cons m ms)
  from Cons.prems obtain c where
    c: "getCompatibilityChangeCase st cu (group_id m) Group d = Inr c"
    by (cases "getCompatibilityChangeCase st cu (group_id m) Group d") (auto simp: Let_def)
  let ?opt = "\<lparr>label = group_name m, option_value = group_id m,
                 isDisabled = False, style = Some []\<rparr>"
  let ?o = "if c = NoCompatibleUnits then ?opt\<lparr>isDisabled := True\<rparr>
            else ?opt\<lparr>style := Some (getMenuOptionFont c)\<rparr>"
  from Cons.prems c have "groupOptionsLoop st cu d ms (acc @ [?o]) = Inr opts"
    by (simp add: Let_def)
  from Cons.IH [OF this] obtain new where
    new: "opts = (acc @ [?o]) @ new" and
    all: "list_all2 (\<lambda>m opt. option_value opt = group_id m \<and>
        (\<exists>c. getCompatibilityChangeCase st cu (group_id m) Group d = Inr c \<and>
             isDisabled opt = (c = NoCompatibleUnits))) ms new"
    by blast
  have "option_value ?o = group_id m \<and> isDisabled ?o = (c = NoCompatibleUnits)"
    by simp
  with c all have "list_all2 (\<lambda>m opt. option_value opt = group_id m \<and>
        (\<exists>c. getCompatibilityChangeCase st cu (group_id m) Group d = Inr c \<and>
             isDisabled opt = (c = NoCompatibleUnits))) (m # ms) (?o # new)"
    by (simp del: SelectOption.simps)
  moreover from new have "opts = acc @ (?o # new)"
    by simp
  ultimately show ?case
    by blast
qed


lemma menu_head:
  assumes "(case metersInGroup st gid of
              Inl e \<Rightarrow> Inl e
            | Inr ms \<Rightarrow>
                (case unitsCompatibleWithMeters st ms of
                   Inl e \<Rightarrow> Inl e
                 | Inr currentUnits \<Rightarrow>
                     (case map_of (byGroupID st) gid of
                        None \<Rightarrow> Inl TypeError
                      | Some g \<Rightarrow> body currentUnits (defaultGraphicUnit g)))) = Inr opts"
  shows "\<exists>ms cu g. metersInGroup st gid = Inr ms \<and> unitsCompatibleWithMeters st ms = Inr cu \<and>
           map_of (byGroupID st) gid = Some g \<and> body cu (defaultGraphicUnit g) = Inr opts"
  using assms by (auto split: sum.splits option.splits)


lemma getMeterMenuOptionsForGroup_rev1_spec:
  assumes "getMeterMenuOptionsForGroup_rev1 st gid = Inr opts"
  shows "(\<exists>ms cu g. metersInGroup st gid = Inr ms \<and> unitsCompatibleWithMeters st ms = Inr cu \<and>
         map_of (byGroupID st) gid = Some g \<and>
         list_all2 (\<lambda>m opt. option_value opt = meter_id m \<and>
            (\<exists>c. getCompatibilityChangeCase_rev1 st cu (meter_id m) Meter (defaultGraphicUnit g) = Inr c \<and>
                 isDisabled opt = (c = NoCompatibleUnits)))
           (map snd (byMeterID st)) opts)"
proof -
  from menu_head [OF assms [unfolded getMeterMenuOptionsForGroup_rev1_def]]
  obtain ms cu g where h: "metersInGroup st gid = Inr ms" "unitsCompatibleWithMeters st ms = Inr cu"
    "map_of (byGroupID st) gid = Some g"
    "meterOptionsLoop_rev1 st cu (defaultGraphicUnit g) (map snd (byMeterID st)) [] = Inr opts"
    by blast
  from meterOptionsLoop_rev1_spec [OF h(4)] h(1-3) show ?thesis
    by auto
qed

lemma getMeterMenuOptionsForGroup_spec:
  assumes "getMeterMenuOptionsForGroup st gid = Inr opts"
  shows "(\<exists>ms cu g. metersInGroup st gid = Inr ms \<and> unitsCompatibleWithMeters st ms = Inr cu \<and>
         map_of (byGroupID st) gid = Some g \<and>
         list_all2 (\<lambda>m opt. option_value opt = meter_id m \<and>
            (\<exists>c. getCompatibilityChangeCase st cu (meter_id m) Meter (defaultGraphicUnit g) = Inr c \<and>
                 isDisabled opt = (c = NoCompatibleUnits)))
           (map snd (byMeterID st)) opts)"
proof -
  from menu_head [OF assms [unfolded getMeterMenuOptionsForGroup_def]]
  obtain ms cu g where h: "metersInGroup st gid = Inr ms" "unitsCompatibleWithMeters st ms = Inr cu"
    "map_of (byGroupID st) gid = Some g"
    "meterOptionsLoop st cu (defaultGraphicUnit g) (map snd (byMeterID st)) [] = Inr opts"
    by blast
  from meterOptionsLoop_spec [OF h(4)] h(1-3) show ?thesis
    by auto
qed

lemma getGroupMenuOptionsForGroup_spec:
  assumes "getGroupMenuOptionsForGroup st gid = Inr opts"
  shows "(\<exists>ms cu g. metersInGroup st gid = Inr ms \<and> unitsCompatibleWithMeters st ms = Inr cu \<and>
         map_of (byGroupID st) gid = Some g \<and>
         list_all2 (\<lambda>m opt. option_value opt = group_id m \<and>
            (\<exists>c. getCompatibilityChangeCase st cu (group_id m) Group (defaultGraphicUnit g) = Inr c \<and>
                 isDisabled opt = (c = NoCompatibleUnits)))
           (map snd (byGroupID st)) opts)"
proof -
  from menu_head [OF assms [unfolded getGroupMenuOptionsForGroup_def]]
  obtain ms cu g where h: "metersInGroup st gid = Inr ms" "unitsCompatibleWithMeters st ms = Inr cu"
    "map_of (byGroupID st) gid = Some g"
    "groupOptionsLoop st cu (defaultGraphicUnit g) (map snd (byGroupID st)) [] = Inr opts"
    by blast
  from groupOptionsLoop_spec [OF h(4)] h(1-3) show ?thesis
    by auto
qed

text \<open>
  C8: in the menus that \<open>getMeterMenuOptionsForGroup\<close> (both revisions) and
  \<open>getGroupMenuOptionsForGroup\<close> (later revision) return for a group, the options stand one
  for each candidate of the store, in order, with the candidate's id as value, and an
  option is disabled exactly when the classifier, given the group's compatible units, the
  candidate (a meter as \<open>Meter\<close>, a group as \<open>Group\<close>) and the group's default graphic unit,
  returns \<open>NoCompatibleUnits\<close>.
\<close>

theorem menu_option_disabled_iff_NoCompatibleUnits:
  "(getMeterMenuOptionsForGroup_rev1 st gid = Inr opts \<longrightarrow>
      (\<exists>ms cu g. metersInGroup st gid = Inr ms \<and> unitsCompatibleWithMeters st ms = Inr cu \<and>
         map_of (byGroupID st) gid = Some g \<and>
         list_all2 (\<lambda>m opt. option_value opt = meter_id m \<and>
            (\<exists>c. getCompatibilityChangeCase_rev1 st cu (meter_id m) Meter (defaultGraphicUnit g) = Inr c \<and>
                 isDisabled opt = (c = NoCompatibleUnits)))
           (map snd (byMeterID st)) opts)) \<and>
   (getMeterMenuOptionsForGroup st gid = Inr opts \<longrightarrow>
      (\<exists>ms cu g. metersInGroup st gid = Inr ms \<and> unitsCompatibleWithMeters st ms = Inr cu \<and>
         map_of (byGroupID st) gid = Some g \<and>
         list_all2 (\<lambda>m opt. option_value opt = meter_id m \<and>
            (\<exists>c. getCompatibilityChangeCase st cu (meter_id m) Meter (defaultGraphicUnit g) = Inr c \<and>
                 isDisabled opt = (c = NoCompatibleUnits)))
           (map snd (byMeterID st)) opts)) \<and>
   (getGroupMenuOptionsForGroup st gid = Inr opts \<longrightarrow>
      (\<exists>ms cu g. metersInGroup st gid = Inr ms \<and> unitsCompatibleWithMeters st ms = Inr cu \<and>
         map_of (byGroupID st) gid = Some g \<and>
         list_all2 (\<lambda>m opt. option_value opt = group_id m \<and>
            (\<exists>c. getCompatibilityChangeCase st cu (group_id m) Group (defaultGraphicUnit g) = Inr c \<and>
                 isDisabled opt = (c = NoCompatibleUnits)))
           (map snd (byGroupID st)) opts))"
  using getMeterMenuOptionsForGroup_rev1_spec [of st gid opts]
    getMeterMenuOptionsForGroup_spec [of st gid opts]
    getGroupMenuOptionsForGroup_spec [of st gid opts]
  by (intro conjI impI) assumption+


theorem menu_option_disabled_iff_NoCompatibleUnits_witness:
  "getMeterMenuOptionsForGroup_rev1 demo_state 3 = Inr
     [\<lparr>label = ''m1'', option_value = 1, isDisabled = True, style = None\<rparr>,
      \<lparr>label = ''m2'', option_value = 2, isDisabled = False, style = None\<rparr>,
      \<lparr>label = ''m3'', option_value = 3, isDisabled = True, style = None\<rparr>,
      \<lparr>label = ''m4'', option_value = 4, isDisabled = False, style = None\<rparr>] \<and>
   getMeterMenuOptionsForGroup demo_state 3 = Inr
     [\<lparr>label = ''m1'', option_value = 1, isDisabled = True, style = Some []\<rparr>,
      \<lparr>label = ''m2'', option_value = 2, isDisabled = False, style = Some [(''color'', ''black'')]\<rparr>,
      \<lparr>label = ''m3'', option_value = 3, isDisabled = True, style = Some []\<rparr>,
      \<lparr>label = ''m4'', option_value = 4, isDisabled = False, style = Some [(''color'', ''black'')]\<rparr>] \<and>
   getGroupMenuOptionsForGroup demo_state 1 = Inr
     [\<lparr>label = ''g1'', option_value = 1, isDisabled = False, style = Some [(''color'', ''black'')]\<rparr>,
      \<lparr>label = ''g2'', option_value = 2, isDisabled = True, style = Some []\<rparr>,
      \<lparr>label = ''g3'', option_value = 3, isDisabled = False, style = Some [(''color'', ''yellow'')]\<rparr>] \<and>
   (\<exists>ms cu g. metersInGroup demo_state 3 = Inr ms \<and> unitsCompatibleWithMeters demo_state ms = Inr cu \<and>
         map_of (byGroupID demo_state) 3 = Some g \<and>
         list_all2 (\<lambda>m opt. option_value opt = meter_id m \<and>
            (\<exists>c. getCompatibilityChangeCase_rev1 demo_state cu (meter_id m) Meter (defaultGraphicUnit g) = Inr c \<and>
                 isDisabled opt = (c = NoCompatibleUnits)))
           (map snd (byMeterID demo_state)) 
     [\<lparr>label = ''m1'', option_value = 1, isDisabled = True, style = None\<rparr>,
      \<lparr>label = ''m2'', option_value = 2, isDisabled = False, style = None\<rparr>,
      \<lparr>label = ''m3'', option_value = 3, isDisabled = True, style = None\<rparr>,
      \<lparr>label = ''m4'', option_value = 4, isDisabled = False, style = None\<rparr>]) \<and>
   (\<exists>ms cu g. metersInGroup demo_state 3 = Inr ms \<and> unitsCompatibleWithMeters demo_state ms = Inr cu \<and>
         map_of (byGroupID demo_state) 3 = Some g \<and>
         list_all2 (\<lambda>m opt. option_value opt = meter_id m \<and>
            (\<exists>c. getCompatibilityChangeCase demo_state cu (meter_id m) Meter (defaultGraphicUnit g) = Inr c \<and>
                 isDisabled opt = (c = NoCompatibleUnits)))
           (map snd (byMeterID demo_state)) 
     [\<lparr>label = ''m1'', option_value = 1, isDisabled = True, style = Some []\<rparr>,
      \<lparr>label = ''m2'', option_value = 2, isDisabled = False, style = Some [(''color'', ''black'')]\<rparr>,
      \<lparr>label = ''m3'', option_value = 3, isDisabled = True, style = Some []\<rparr>,
      \<lparr>label = ''m4'', option_value = 4, isDisabled = False, style = Some [(''color'', ''black'')]\<rparr>]) \<and>
   (\<exists>ms cu g. metersInGroup demo_state 1 = Inr ms \<and> unitsCompatibleWithMeters demo_state ms = Inr cu \<and>
         map_of (byGroupID demo_state) 1 = Some g \<and>
         list_all2 (\<lambda>m opt. option_value opt = group_id m \<and>
            (\<exists>c. getCompatibilityChangeCase demo_state cu (group_id m) Group (defaultGraphicUnit g) = Inr c \<and>
                 isDisabled opt = (c = NoCompatibleUnits)))
           (map snd (byGroupID demo_state)) 
     [\<lparr>label = ''g1'', option_value = 1, isDisabled = False, style = Some [(''color'', ''black'')]\<rparr>,
      \<lparr>label = ''g2'', option_value = 2, isDisabled = True, style = Some []\<rparr>,
      \<lparr>label = ''g3'', option_value = 3, isDisabled = False, style = Some [(''color'', ''yellow'')]\<rparr>])"
proof -
  let ?o1 = "[\<lparr>label = ''m1'', option_value = 1, isDisabled = True, style = None\<rparr>,
      \<lparr>label = ''m2'', option_value = 2, isDisabled = False, style = None\<rparr>,
      \<lparr>label = ''m3'', option_value = 3, isDisabled = True, style = None\<rparr>,
      \<lparr>label = ''m4'', option_value = 4, isDisabled = False, style = None\<rparr>]"
  let ?o2 = "[\<lparr>label = ''m1'', option_value = 1, isDisabled = True, style = Some []\<rparr>,
      \<lparr>label = ''m2'', option_value = 2, isDisabled = False, style = Some [(''color'', ''black'')]\<rparr>,
      \<lparr>label = ''m3'', option_value = 3, isDisabled = True, style = Some []\<rparr>,
      \<lparr>label = ''m4'', option_value = 4, isDisabled = False, style = Some [(''color'', ''black'')]\<rparr>]"
  let ?o3 = "[\<lparr>label = ''g1'', option_value = 1, isDisabled = False, style = Some [(''color'', ''black'')]\<rparr>,
      \<lparr>label = ''g2'', option_value = 2, isDisabled = True, style = Some []\<rparr>,
      \<lparr>label = ''g3'', option_value = 3, isDisabled = False, style = Some [(''color'', ''yellow'')]\<rparr>]"
  have h1: "getMeterMenuOptionsForGroup_rev1 demo_state 3 = Inr ?o1"
    by code_simp
  have h2: "getMeterMenuOptionsForGroup demo_state 3 = Inr ?o2"
    by code_simp
  have h3: "getGroupMenuOptionsForGroup demo_state 1 = Inr ?o3"
    by code_simp
  have c1: "(\<exists>ms cu g. metersInGroup demo_state 3 = Inr ms \<and> unitsCompatibleWithMeters demo_state ms = Inr cu \<and>
         map_of (byGroupID demo_state) 3 = Some g \<and>
         list_all2 (\<lambda>m opt. option_value opt = meter_id m \<and>
            (\<exists>c. getCompatibilityChangeCase_rev1 demo_state cu (meter_id m) Meter (defaultGraphicUnit g) = Inr c \<and>
                 isDisabled opt = (c = NoCompatibleUnits)))
           (map snd (byMeterID demo_state)) ?o1)"
    using menu_option_disabled_iff_NoCompatibleUnits [of demo_state 3 ?o1] h1 by blast
  have c2: "(\<exists>ms cu g. metersInGroup demo_state 3 = Inr ms \<and> unitsCompatibleWithMeters demo_state ms = Inr cu \<and>
         map_of (byGroupID demo_state) 3 = Some g \<and>
         list_all2 (\<lambda>m opt. option_value opt = meter_id m \<and>
            (\<exists>c. getCompatibilityChangeCase demo_state cu (meter_id m) Meter (defaultGraphicUnit g) = Inr c \<and>
                 isDisabled opt = (c = NoCompatibleUnits)))
           (map snd (byMeterID demo_state)) ?o2)"
    using menu_option_disabled_iff_NoCompatibleUnits [of demo_state 3 ?o2] h2 by blast
  have c3: "(\<exists>ms cu g. metersInGroup demo_state 1 = Inr ms \<and> unitsCompatibleWithMeters demo_state ms = Inr cu \<and>
         map_of (byGroupID demo_state) 1 = Some g \<and>
         list_all2 (\<lambda>m opt. option_value opt = group_id m \<and>
            (\<exists>c. getCompatibilityChangeCase demo_state cu (group_id m) Group (defaultGraphicUnit g) = Inr c \<and>
                 isDisabled opt = (c = NoCompatibleUnits)))
           (map snd (byGroupID demo_state)) ?o3)"
    using menu_option_disabled_iff_NoCompatibleUnits [of demo_state 1 ?o3] h3 by blast
  from h1 h2 h3 c1 c2 c3 show ?thesis
    by (intro conjI)
qed

subsection \<open>The group menu of the earlier revision\<close>

lemma getCompatibleUnits_by_type:
  "getCompatibleUnits st i Meter =
     (case map_of (byMeterID st) i of
        None \<Rightarrow> Inl TypeError
      | Some m \<Rightarrow> unitsCompatibleWithUnit st (unitId m)) \<and>
   getCompatibleUnits st i Group =
     (case metersInGroup st i of
        Inl e \<Rightarrow> Inl e
      | Inr ms \<Rightarrow> unitsCompatibleWithMeters st ms)"
  by (simp add: getCompatibleUnits_def)

text \<open>
  C2: \<open>getCompatibleUnits\<close> resolves a meter by its unit and a group by its deep meters
  (lemma \<open>getCompatibleUnits_by_type\<close>), and the group menu of the later revision passes
  \<open>Group\<close>. The group menu of the earlier revision passes \<open>Meter\<close> with the id of a group.
  On the small state, for group 1 (compatible units 6 and 7): the candidate group 1,
  resolved as a group, changes nothing; the earlier revision resolves it as meter 1
  (unit 5 only) and disables its option, and it leaves the option of group 2 enabled,
  which the later revision disables.
\<close>

theorem getGroupMenuOptionsForGroup_rev1_resolves_groups_as_meters:
  "getGroupMenuOptionsForGroup_rev1 demo_state 1 = Inr
     [\<lparr>label = ''g1'', option_value = 1, isDisabled = True, style = None\<rparr>,
      \<lparr>label = ''g2'', option_value = 2, isDisabled = False, style = None\<rparr>,
      \<lparr>label = ''g3'', option_value = 3, isDisabled = True, style = None\<rparr>] \<and>
   getGroupMenuOptionsForGroup demo_state 1 = Inr
     [\<lparr>label = ''g1'', option_value = 1, isDisabled = False, style = Some [(''color'', ''black'')]\<rparr>,
      \<lparr>label = ''g2'', option_value = 2, isDisabled = True, style = Some []\<rparr>,
      \<lparr>label = ''g3'', option_value = 3, isDisabled = False, style = Some [(''color'', ''yellow'')]\<rparr>] \<and>
   metersInGroup demo_state 1 = Inr [2] \<and>
   unitsCompatibleWithMeters demo_state [2] = Inr [6, 7] \<and>
   getCompatibleUnits demo_state 1 Group = Inr [6, 7] \<and>
   getCompatibleUnits demo_state 1 Meter = Inr [5] \<and>
   getCompatibilityChangeCase_rev1 demo_state [6, 7] 1 Group (-99) = Inr NoChange \<and>
   getCompatibilityChangeCase_rev1 demo_state [6, 7] 1 Meter (-99) = Inr NoCompatibleUnits"
proof (intro conjI)
  show "getGroupMenuOptionsForGroup_rev1 demo_state 1 = Inr
     [\<lparr>label = ''g1'', option_value = 1, isDisabled = True, style = None\<rparr>,
      \<lparr>label = ''g2'', option_value = 2, isDisabled = False, style = None\<rparr>,
      \<lparr>label = ''g3'', option_value = 3, isDisabled = True, style = None\<rparr>]"
    by code_simp
  show "getGroupMenuOptionsForGroup demo_state 1 = Inr
     [\<lparr>label = ''g1'', option_value = 1, isDisabled = False, style = Some [(''color'', ''black'')]\<rparr>,
      \<lparr>label = ''g2'', option_value = 2, isDisabled = True, style = Some []\<rparr>,
      \<lparr>label = ''g3'', option_value = 3, isDisabled = False, style = Some [(''color'', ''yellow'')]\<rparr>]"
    by code_simp
  show "metersInGroup demo_state 1 = Inr [2]"
    by code_simp
  show "unitsCompatibleWithMeters demo_state [2] = Inr [6, 7]"
    by code_simp
  show "getCompatibleUnits demo_state 1 Group = Inr [6, 7]"
    by code_simp
  show "getCompatibleUnits demo_state 1 Meter = Inr [5]"
    by code_simp
  show "getCompatibilityChangeCase_rev1 demo_state [6, 7] 1 Group (-99) = Inr NoChange"
    by code_simp
  show "getCompatibilityChangeCase_rev1 demo_state [6, 7] 1 Meter (-99) = Inr NoCompatibleUnits"
    by code_simp
qed

end
